theory Spec2Isabelle
  imports Complex_Main "HOL-Library.AList"
begin

section \<open>JavaScript values\<close>

text \<open>
  The pipeline is JavaScript: its records are objects whose fields may be absent, and a
  read of a field of \<open>undefined\<close> raises a TypeError. Objects are association lists in
  insertion order; a number is a real (the thresholds of the code are compared exactly).
\<close>

datatype js =
    JUndefined
  | JNull
  | JBool bool
  | JNum real
  | JStr string
  | JArr "js list"
  | JObj "(string \<times> js) list"

text \<open>What a \<open>throw\<close> carries: \<open>error.message\<close> is all the code ever reads of it.\<close>

datatype exn = TypeError string | SyntaxError string | Error string

fun message :: "exn \<Rightarrow> string" where
  "message (TypeError m) = m"
| "message (SyntaxError m) = m"
| "message (Error m) = m"

text \<open>A promise that is awaited: it resolves, rejects, or never settles.\<close>

datatype 'a promise = Resolved 'a | Rejected exn | Pending

text \<open>Comparison and product of numbers that may be \<open>undefined\<close>: \<open>undefined\<close> becomes
  NaN, every comparison with NaN is false.\<close>

definition num_lt :: "real option \<Rightarrow> real option \<Rightarrow> bool" where
  "num_lt a b = (case a of None \<Rightarrow> False | Some x \<Rightarrow> (case b of None \<Rightarrow> False | Some y \<Rightarrow> x < y))"

definition num_mul :: "real option \<Rightarrow> real option \<Rightarrow> real option" where
  "num_mul a b = (case a of None \<Rightarrow> None | Some x \<Rightarrow> (case b of None \<Rightarrow> None | Some y \<Rightarrow> Some (x * y)))"

section \<open>Strings and objects\<close>

text \<open>\<open>String.prototype.toLowerCase\<close> on the ASCII letters.\<close>

definition lower_char :: "char \<Rightarrow> char" where
  "lower_char c =
     (case map_of (zip ''ABCDEFGHIJKLMNOPQRSTUVWXYZ'' ''abcdefghijklmnopqrstuvwxyz'') c of
        Some d \<Rightarrow> d
      | None \<Rightarrow> c)"

definition toLowerCase :: "string \<Rightarrow> string" where
  "toLowerCase s = map lower_char s"

primrec starts_with :: "string \<Rightarrow> string \<Rightarrow> bool" where
  "starts_with s [] = True"
| "starts_with s (p # ps) = (case s of [] \<Rightarrow> False | c # cs \<Rightarrow> c = p \<and> starts_with cs ps)"

text \<open>\<open>s.includes(t)\<close>: \<open>t\<close> occurs in \<open>s\<close>.\<close>

primrec str_includes :: "string \<Rightarrow> string \<Rightarrow> bool" where
  "str_includes [] t = (t = [])"
| "str_includes (c # cs) t = (starts_with (c # cs) t \<or> str_includes cs t)"

text \<open>The first occurrence of \<open>t\<close> in \<open>s\<close>: what stands before it and what follows it.\<close>

primrec find_sub :: "string \<Rightarrow> string \<Rightarrow> (string \<times> string) option" where
  "find_sub [] t = (if t = [] then Some ([], []) else None)"
| "find_sub (c # cs) t =
     (if starts_with (c # cs) t then Some ([], drop (length t) (c # cs))
      else (case find_sub cs t of None \<Rightarrow> None | Some (b, a) \<Rightarrow> Some (c # b, a)))"

definition is_space :: "char \<Rightarrow> bool" where
  "is_space c = (c \<in> set [CHR '' '', CHR 0x09, CHR 0x0A, CHR 0x0B, CHR 0x0C, CHR 0x0D])"

definition trim :: "string \<Rightarrow> string" where
  "trim s = rev (dropWhile is_space (rev (dropWhile is_space s)))"

text \<open>The last element of \<open>s.split('\n')\<close>: what follows the last line feed.\<close>

definition last_line :: "string \<Rightarrow> string" where
  "last_line s = rev (takeWhile (\<lambda>c. c \<noteq> CHR 0x0A) (rev s))"

definition is_digit :: "char \<Rightarrow> bool" where
  "is_digit c = (c \<in> set ''0123456789'')"

definition digit_val :: "char \<Rightarrow> nat" where
  "digit_val c = of_char c - 48"

definition digits_val :: "string \<Rightarrow> nat" where
  "digits_val ds = foldl (\<lambda>a d. 10 * a + digit_val d) 0 ds"

text \<open>\<open>s.replace(/[^\d.]/g, '')\<close>: only digits and dots stay.\<close>

definition strip_non_numeric :: "string \<Rightarrow> string" where
  "strip_non_numeric s = filter (\<lambda>c. is_digit c \<or> c = CHR ''.'') s"

text \<open>\<open>parseFloat\<close> on a string of digits and dots: the longest prefix that is a decimal
  literal (digits, then at most one dot with digits), \<open>None\<close> for NaN when there is no such
  prefix. The value here is the decimal itself, where the code holds the double nearest to
  it. Rounding to the nearest double keeps the order, and the thresholds of the table (0.5,
  2.5, 3, 5, 140) are doubles, so the two can differ in a comparison only for a decimal
  that lies above a threshold by less than the rounding error. A string of at most 15
  characters cannot do that: next to 0.5, 2.5, 3 or 5 it has at most 14 decimal places and
  differs from the threshold by 0.00000000000001 or more, against an error below
  0.000000000000001; next to 140 it has at most 11 decimal places. A longer string such as
  3.0000000000000001 is rounded to 3 by the code and lies above 3 here, so the lemmas on
  thresholds are stated for strings of at most 15 characters.\<close>

definition parseFloat :: "string \<Rightarrow> real option" where
  "parseFloat s =
    (let ip = takeWhile is_digit s; rest = dropWhile is_digit s
     in case rest of
          [] \<Rightarrow> (if ip = [] then None else Some (real (digits_val ip)))
        | c # cs \<Rightarrow>
            (if c = CHR ''.''
             then (let fp = takeWhile is_digit cs
                   in if ip = [] \<and> fp = [] then None
                      else Some (real (digits_val ip) + real (digits_val fp) / 10 ^ length fp))
             else (if ip = [] then None else Some (real (digits_val ip)))))"

text \<open>Truthiness of a value.\<close>

fun truthy :: "js \<Rightarrow> bool" where
  "truthy JUndefined = False"
| "truthy JNull = False"
| "truthy (JBool b) = b"
| "truthy (JNum x) = (x \<noteq> 0)"
| "truthy (JStr s) = (s \<noteq> [])"
| "truthy (JArr xs) = True"
| "truthy (JObj kvs) = True"

text \<open>The message of the TypeError for a read of the property \<open>k\<close> of \<open>undefined\<close> or
  \<open>null\<close>, with the quotes the engine puts around the name of the property.\<close>

definition squote :: "string \<Rightarrow> string" where
  "squote s = [CHR 0x27] @ s @ [CHR 0x27]"

definition cannot_read :: "string \<Rightarrow> string \<Rightarrow> string" where
  "cannot_read base k = ''Cannot read properties of '' @ base @ '' (reading '' @ squote k @ '')''"

text \<open>\<open>o.k\<close>: a TypeError on \<open>undefined\<close> and \<open>null\<close>, \<open>undefined\<close> for a missing key;
  strings and arrays have a \<open>length\<close>.\<close>

fun obj_get :: "js \<Rightarrow> string \<Rightarrow> exn + js" where
  "obj_get JUndefined k = Inl (TypeError (cannot_read ''undefined'' k))"
| "obj_get JNull k = Inl (TypeError (cannot_read ''null'' k))"
| "obj_get (JObj kvs) k = Inr (case map_of kvs k of Some v \<Rightarrow> v | None \<Rightarrow> JUndefined)"
| "obj_get (JStr s) k = Inr (if k = ''length'' then JNum (real (length s)) else JUndefined)"
| "obj_get (JArr xs) k = Inr (if k = ''length'' then JNum (real (length xs)) else JUndefined)"
| "obj_get (JBool b) k = Inr JUndefined"
| "obj_get (JNum x) k = Inr JUndefined"

text \<open>\<open>o?.k\<close>: \<open>undefined\<close> on \<open>undefined\<close> and \<open>null\<close>.\<close>

definition opt_get :: "js \<Rightarrow> string \<Rightarrow> js" where
  "opt_get v k = (case obj_get v k of Inl e \<Rightarrow> JUndefined | Inr x \<Rightarrow> x)"

text \<open>\<open>o[0]\<close>.\<close>

fun first_elem :: "js \<Rightarrow> exn + js" where
  "first_elem JUndefined = Inl (TypeError (cannot_read ''undefined'' ''0''))"
| "first_elem JNull = Inl (TypeError (cannot_read ''null'' ''0''))"
| "first_elem (JArr xs) = Inr (case xs of [] \<Rightarrow> JUndefined | x # _ \<Rightarrow> x)"
| "first_elem (JStr s) = Inr (case s of [] \<Rightarrow> JUndefined | c # _ \<Rightarrow> JStr [c])"
| "first_elem (JObj kvs) = Inr (case map_of kvs ''0'' of Some v \<Rightarrow> v | None \<Rightarrow> JUndefined)"
| "first_elem (JBool b) = Inr JUndefined"
| "first_elem (JNum x) = Inr JUndefined"

text \<open>\<open>o?.[0]\<close>.\<close>

definition opt_first :: "js \<Rightarrow> js" where
  "opt_first v = (case first_elem v of Inl e \<Rightarrow> JUndefined | Inr x \<Rightarrow> x)"

text \<open>A field with a default, as in \<open>const { k = d } = data\<close>: the default stands in for
  \<open>undefined\<close> only.\<close>

definition field_default :: "js \<Rightarrow> string \<Rightarrow> js \<Rightarrow> exn + js" where
  "field_default data k d =
     (case obj_get data k of Inl e \<Rightarrow> Inl e | Inr v \<Rightarrow> Inr (if v = JUndefined then d else v))"

text \<open>Decimal digits of an index, for the keys a spread gives to the elements of an array.\<close>

fun digit_char :: "nat \<Rightarrow> char" where
  "digit_char n = (''0123456789'' ! (n mod 10))"

function show_nat :: "nat \<Rightarrow> string" where
  "show_nat n = (if n < 10 then [digit_char n] else show_nat (n div 10) @ [digit_char n])"
  by pat_completeness auto
termination
  by (relation "measure id") auto

fun indexed :: "nat \<Rightarrow> js list \<Rightarrow> (string \<times> js) list" where
  "indexed i [] = []"
| "indexed i (x # xs) = (show_nat i, x) # indexed (Suc i) xs"

text \<open>The own enumerable properties \<open>{...v}\<close> copies: the fields of an object, the elements
  of an array and the characters of a string under their indices, nothing for a number, a
  boolean, \<open>null\<close> or \<open>undefined\<close>.\<close>

fun spread :: "js \<Rightarrow> (string \<times> js) list" where
  "spread (JObj kvs) = kvs"
| "spread (JArr xs) = indexed 0 xs"
| "spread (JStr s) = indexed 0 (map (\<lambda>c. JStr [c]) s)"
| "spread JUndefined = []"
| "spread JNull = []"
| "spread (JBool b) = []"
| "spread (JNum x) = []"

text \<open>An object literal: later fields overwrite earlier ones of the same name in place.\<close>

definition obj_lit :: "(string \<times> js) list \<Rightarrow> js" where
  "obj_lit kvs = JObj (foldl (\<lambda>acc kv. AList.update (fst kv) (snd kv) acc) [] kvs)"

section \<open>Text extraction results and the quality gate (ocr.js)\<close>

text \<open>The object \<open>performOCR\<close> returns. Every field is optional: the failure branch of
  \<open>performOCR\<close> sets only \<open>success\<close>, \<open>error\<close>, \<open>filename\<close>, \<open>processingTime\<close> and
  \<open>extractedAt\<close>.\<close>

record ocr_word =
  w_text :: string
  w_confidence :: real
  w_bbox :: js

record ocr_result =
  ocr_success :: "bool option"
  ocr_error :: "string option"
  ocr_text :: "string option"
  ocr_confidence :: "real option"
  ocr_meanConfidence :: "real option"
  ocr_words :: "ocr_word list option"
  ocr_processingTime :: "int option"
  ocr_filename :: "string option"
  ocr_imageSource :: "string option"
  ocr_lines :: "string list option"
  ocr_totalWords :: "real option"
  ocr_lowConfidenceWords :: "real option"
  ocr_averageWordConfidence :: "real option"
  ocr_extractedAt :: "string option"
  ocr_detectedSections :: "(string \<times> string) list option"

record assessment =
  qa_overall :: string
  qa_confidence :: "real option"
  qa_issues :: "string list"
  qa_recommendations :: "string list"
  qa_assessedAt :: string

text \<open>\<open>assessOCRQuality\<close>, lines 572-615. The \<open>catch\<close> block rethrows, so the TypeError of
  \<open>ocrResult.text.length\<close> on a result without \<open>text\<close> leaves the function. \<open>now\<close> is
  \<open>new Date().toISOString()\<close>.\<close>

definition assessOCRQuality :: "string \<Rightarrow> ocr_result \<Rightarrow> exn + assessment" where
  "assessOCRQuality now ocrResult =
    (let a0 = \<lparr> qa_overall = ''good'', qa_confidence = ocr_confidence ocrResult,
                 qa_issues = [], qa_recommendations = [], qa_assessedAt = now \<rparr>;
         a1 = (if num_lt (ocr_confidence ocrResult) (Some 0.7)
               then a0 \<lparr> qa_overall := ''poor'',
                         qa_issues := qa_issues a0 @ [''Low overall confidence''],
                         qa_recommendations := qa_recommendations a0 @
                           [''Consider image preprocessing or manual review''] \<rparr>
               else if num_lt (ocr_confidence ocrResult) (Some 0.85)
               then a0 \<lparr> qa_overall := ''fair'',
                         qa_issues := qa_issues a0 @ [''Moderate confidence''],
                         qa_recommendations := qa_recommendations a0 @
                           [''Verify critical sections manually''] \<rparr>
               else a0);
         a2 = (if num_lt (num_mul (ocr_totalWords ocrResult) (Some 0.2))
                         (ocr_lowConfidenceWords ocrResult)
               then a1 \<lparr> qa_issues := qa_issues a1 @ [''High number of low confidence words''],
                         qa_recommendations := qa_recommendations a1 @
                           [''Review text for accuracy''] \<rparr>
               else a1)
     in case ocr_text ocrResult of
          None \<Rightarrow> Inl (TypeError (cannot_read ''undefined'' ''length''))
        | Some t \<Rightarrow>
            Inr (if length t < 50
                 then a2 \<lparr> qa_issues := qa_issues a2 @ [''Very short text extracted''],
                           qa_recommendations := qa_recommendations a2 @
                             [''Check if image contains readable text''] \<rparr>
                 else a2))"

text \<open>An object with no field set.\<close>

definition empty_ocr :: ocr_result where
  "empty_ocr = \<lparr> ocr_success = None, ocr_error = None, ocr_text = None, ocr_confidence = None,
     ocr_meanConfidence = None, ocr_words = None, ocr_processingTime = None,
     ocr_filename = None, ocr_imageSource = None, ocr_lines = None, ocr_totalWords = None,
     ocr_lowConfidenceWords = None, ocr_averageWordConfidence = None,
     ocr_extractedAt = None, ocr_detectedSections = None \<rparr>"

text \<open>The high-quality input of the repository's test \<open>ocr.test.js\<close>: confidence 0.92, eight
  words, none of low confidence, 55 characters of text.\<close>

definition highQualityOCR :: ocr_result where
  "highQualityOCR = empty_ocr \<lparr>
     ocr_text := Some (''NUTRITION FACTS'' @ [CHR 0x0A] @ ''Serving Size 1 cup (240ml)'' @ [CHR 0x0A] @ ''Calories 150''),
     ocr_confidence := Some 0.92, ocr_totalWords := Some 8, ocr_lowConfidenceWords := Some 0,
     ocr_detectedSections := Some [] \<rparr>"

text \<open>A confident read of a short text.\<close>

definition shortTextOCR :: ocr_result where
  "shortTextOCR = empty_ocr \<lparr> ocr_text := Some ''SALT'', ocr_confidence := Some 0.95,
     ocr_totalWords := Some 1, ocr_lowConfidenceWords := Some 0, ocr_detectedSections := Some [] \<rparr>"

section \<open>Claim validation in the regulatory data server (mcp-servers/fda-validation)\<close>

record claim_validation =
  cv_claim :: string
  cv_isValid :: bool
  cv_reason :: string
  cv_fdaSource :: string

text \<open>The table \<open>fdaThresholds\<close> of \<open>validateSingleClaim\<close>, in the order of the object literal.\<close>

definition fdaThresholds :: "(string \<times> (string \<times> real) list) list" where
  "fdaThresholds =
    [(''low fat'', [(''totalFat'', 3)]),
     (''fat free'', [(''totalFat'', 0.5)]),
     (''low sodium'', [(''sodium'', 140)]),
     (''sodium free'', [(''sodium'', 5)]),
     (''high fiber'', [(''dietaryFiber'', 5)]),
     (''good source of fiber'', [(''dietaryFiber'', 2.5)])]"

text \<open>\<open>v?.replace(/[^\d.]/g, '')\<close>: \<open>undefined\<close> on \<open>undefined\<close> and \<open>null\<close>, a TypeError on a
  value that is not a string (it has no method \<open>replace\<close>).\<close>

fun opt_replace :: "js \<Rightarrow> exn + string option" where
  "opt_replace JUndefined = Inr None"
| "opt_replace JNull = Inr None"
| "opt_replace (JStr s) = Inr (Some (strip_non_numeric s))"
| "opt_replace (JBool b) = Inl (TypeError ''replace is not a function'')"
| "opt_replace (JNum x) = Inl (TypeError ''replace is not a function'')"
| "opt_replace (JArr xs) = Inl (TypeError ''replace is not a function'')"
| "opt_replace (JObj kvs) = Inl (TypeError ''replace is not a function'')"

text \<open>\<open>x || '0'\<close> on what \<open>opt_replace\<close> gives.\<close>

definition or_zero :: "string option \<Rightarrow> string" where
  "or_zero x = (case x of None \<Rightarrow> ''0'' | Some s \<Rightarrow> (if s = [] then ''0'' else s))"

text \<open>\<open>checkNutritionalThreshold\<close>: the loop over the entries of \<open>thresholds\<close>; it returns
  false at the first nutrient whose value is above the entry.\<close>

fun checkNutritionalThreshold :: "js \<Rightarrow> (string \<times> real) list \<Rightarrow> exn + bool" where
  "checkNutritionalThreshold nutritionalData [] = Inr True"
| "checkNutritionalThreshold nutritionalData ((nutrient, maxValue) # rest) =
     (case obj_get nutritionalData nutrient of
        Inl e \<Rightarrow> Inl e
      | Inr v \<Rightarrow>
          (case opt_replace v of
             Inl e \<Rightarrow> Inl e
           | Inr s \<Rightarrow>
               (if num_lt (Some maxValue) (parseFloat (or_zero s)) then Inr False
                else checkNutritionalThreshold nutritionalData rest)))"

definition dquote :: "string \<Rightarrow> string" where
  "dquote s = [CHR 0x22] @ s @ [CHR 0x22]"

text \<open>The loop of \<open>validateSingleClaim\<close> over the table: the first claim type that the
  normalised claim includes decides, and the loop breaks there.\<close>

fun match_claim :: "string \<Rightarrow> js \<Rightarrow> (string \<times> (string \<times> real) list) list \<Rightarrow> exn + bool \<times> string" where
  "match_claim normalizedClaim nutritionalData [] =
     Inr (False, ''Claim not recognized or cannot be validated'')"
| "match_claim normalizedClaim nutritionalData ((claimType, thresholds) # rest) =
     (if str_includes normalizedClaim claimType
      then (case checkNutritionalThreshold nutritionalData thresholds of
              Inl e \<Rightarrow> Inl e
            | Inr isValid \<Rightarrow>
                Inr (isValid,
                     if isValid then ''Claim meets FDA requirements for '' @ dquote claimType
                     else ''Claim does not meet FDA requirements for '' @ dquote claimType))
      else match_claim normalizedClaim nutritionalData rest)"

definition validateSingleClaim :: "string \<Rightarrow> js \<Rightarrow> exn + claim_validation" where
  "validateSingleClaim claim nutritionalData =
     (case match_claim (toLowerCase claim) nutritionalData fdaThresholds of
        Inl e \<Rightarrow> Inl e
      | Inr (isValid, reason) \<Rightarrow>
          Inr \<lparr> cv_claim = claim, cv_isValid = isValid, cv_reason = reason,
                cv_fdaSource = ''FDA Nutrition Labeling Guidelines'' \<rparr>)"

text \<open>\<open>validateNutritionalClaims\<close>: one validation per claim, in order; what is returned here
  is the list the server serialises under \<open>claimValidations\<close>.\<close>

fun validateNutritionalClaims :: "string list \<Rightarrow> js \<Rightarrow> exn + claim_validation list" where
  "validateNutritionalClaims [] nutritionalData = Inr []"
| "validateNutritionalClaims (claim # claims) nutritionalData =
     (case validateSingleClaim claim nutritionalData of
        Inl e \<Rightarrow> Inl e
      | Inr v \<Rightarrow>
          (case validateNutritionalClaims claims nutritionalData of
             Inl e \<Rightarrow> Inl e
           | Inr vs \<Rightarrow> Inr (v # vs)))"

section \<open>The regulatory cross-check activities (fdaValidation.js)\<close>

text \<open>How the spawned server process behaves for one request: it closes with an exit code
  (\<open>None\<close> is the \<open>null\<close> code of a process ended by a signal), its standard output and its
  standard error, or it never closes.\<close>

datatype child = Closes "int option" string string | NeverCloses

text \<open>What the activities take from outside: \<open>JSON.parse\<close>, the conversions of a value to a
  string (in a template literal) and to a number (in a comparison), the server process for a
  tool name and its arguments, \<open>new Date().toISOString()\<close> and the elapsed time
  \<open>Date.now() - startTime\<close>.\<close>

record env =
  e_parse :: "string \<Rightarrow> exn + js"
  e_toStr :: "js \<Rightarrow> string"
  e_toNum :: "js \<Rightarrow> real option"
  e_spawn :: "string \<Rightarrow> js \<Rightarrow> child"
  e_now :: string
  e_elapsed :: real

text \<open>\<open>callFDAMCPTool\<close>, lines 16-66. The promise is settled in the handler of the child's
  \<open>close\<close> event and nowhere else: there is no timer and no \<open>kill\<close>.\<close>

definition callFDAMCPTool :: "env \<Rightarrow> string \<Rightarrow> js \<Rightarrow> js promise" where
  "callFDAMCPTool env toolName args =
     (case e_spawn env toolName args of
        NeverCloses \<Rightarrow> Pending
      | Closes code out err \<Rightarrow>
          (if code \<noteq> Some 0
           then Rejected (Error (''MCP server exited with code ''
                  @ e_toStr env (case code of None \<Rightarrow> JNull | Some c \<Rightarrow> JNum (real_of_int c))
                  @ '': '' @ err))
           else (case e_parse env (last_line (trim out)) of
                   Inl e \<Rightarrow> Rejected (Error (''Failed to parse MCP response: '' @ message e))
                 | Inr v \<Rightarrow> Resolved v)))"

text \<open>A Finding, as the object literal the code pushes.\<close>

definition finding :: "string \<Rightarrow> string \<Rightarrow> string \<Rightarrow> string \<Rightarrow> string \<Rightarrow> (string \<times> js) list \<Rightarrow> string \<Rightarrow> js" where
  "finding ty severity msg source sourceTag extra ts =
     JObj ([(''type'', JStr ty), (''severity'', JStr severity), (''message'', JStr msg),
            (''source'', JStr source), (''sourceTag'', JStr sourceTag)] @ extra @
           [(''timestamp'', JStr ts)])"

definition severity_is :: "string \<Rightarrow> js \<Rightarrow> bool" where
  "severity_is s f = (opt_get f ''severity'' = JStr s)"

text \<open>\<open>v > 0\<close>.\<close>

definition gt_zero :: "env \<Rightarrow> js \<Rightarrow> bool" where
  "gt_zero env v = (case v of JNum x \<Rightarrow> 0 < x | _ \<Rightarrow> num_lt (Some 0) (e_toNum env v))"

text \<open>A \<open>forEach\<close> whose callback may throw: the state reached so far stays (the pushes are
  on arrays outside the callback), the flag tells whether the loop ran to its end.\<close>

fun forEach_abort :: "('a \<Rightarrow> 's \<Rightarrow> 's \<times> bool) \<Rightarrow> 'a list \<Rightarrow> 's \<Rightarrow> 's \<times> bool" where
  "forEach_abort f [] s = (s, True)"
| "forEach_abort f (x # xs) s =
     (case f x s of (s', ok) \<Rightarrow> if ok then forEach_abort f xs s' else (s', False))"

text \<open>The callback of \<open>parsedResult.validationResults.forEach\<close>, lines 130-168, on the pair
  of \<open>issues\<close> and \<open>recommendations\<close>.\<close>

definition ingredient_checks :: "env \<Rightarrow> js \<Rightarrow> js list \<times> js list \<Rightarrow> (js list \<times> js list) \<times> bool" where
  "ingredient_checks env validationResult st =
     (case obj_get validationResult ''fdaApproved'' of
        Inl e \<Rightarrow> (st, False)
      | Inr fdaApproved \<Rightarrow>
          (let ingredient = opt_get validationResult ''ingredient'';
               issues1 = (if \<not> truthy fdaApproved
                          then fst st @ [finding ''FDA_INGREDIENT_NOT_APPROVED'' ''WARNING''
                                 (''Ingredient '' @ dquote (e_toStr env ingredient)
                                    @ '' not found in FDA approved database'')
                                 ''FDA Food Data Central'' ''FDA-INGREDIENT''
                                 [(''ingredient'', ingredient)] (e_now env)]
                          else fst st);
               warnings = opt_get validationResult ''warnings'';
               gras = (\<lambda>issues.
                  ((issues,
                    if \<not> truthy (opt_get validationResult ''grasStatus'')
                    then snd st @ [finding ''FDA_GRAS_RECOMMENDATION'' ''INFO''
                           (''Verify GRAS (Generally Recognized as Safe) status for ''
                              @ dquote (e_toStr env ingredient))
                           ''FDA MCP Server'' ''FDA-GRAS''
                           [(''ingredient'', ingredient)] (e_now env)]
                    else snd st), True))
           in if truthy warnings \<and> gt_zero env (opt_get warnings ''length'')
              then (case warnings of
                      JArr ws \<Rightarrow>
                        gras (issues1 @ map (\<lambda>warning.
                                JObj [(''type'', JStr ''FDA_INGREDIENT_WARNING''),
                                      (''severity'', JStr ''WARNING''),
                                      (''message'', warning),
                                      (''source'', JStr ''FDA Food Data Central''),
                                      (''sourceTag'', JStr ''FDA-INGREDIENT''),
                                      (''ingredient'', ingredient),
                                      (''timestamp'', JStr (e_now env))]) ws)
                    | _ \<Rightarrow> ((issues1, snd st), False))
              else gras issues1))"

text \<open>\<open>processFDAResult\<close>, lines 126-182. Whatever it throws is caught (and only logged) by
  the \<open>try\<close> around \<open>JSON.parse\<close>, so it is a function from the two arrays to the two arrays.\<close>

definition processFDAResult :: "env \<Rightarrow> js \<Rightarrow> js list \<times> js list \<Rightarrow> js list \<times> js list" where
  "processFDAResult env parsedResult st =
     (case obj_get parsedResult ''validationResults'' of
        Inl e \<Rightarrow> st
      | Inr validationResults \<Rightarrow>
          (case (if truthy validationResults
                 then (case validationResults of
                         JArr vs \<Rightarrow> forEach_abort (ingredient_checks env) vs st
                       | _ \<Rightarrow> (st, False))
                 else (st, True)) of
             (st1, ok) \<Rightarrow>
               (if \<not> ok then st1
                else (let summary = opt_get parsedResult ''summary''
                      in if truthy summary
                         then (fst st1, snd st1 @ [finding ''FDA_VALIDATION_SUMMARY'' ''INFO''
                                 (''FDA validation completed: ''
                                    @ e_toStr env (opt_get summary ''approved'') @ ''/''
                                    @ e_toStr env (opt_get summary ''totalIngredients'')
                                    @ '' ingredients approved, ''
                                    @ e_toStr env (opt_get summary ''warnings'')
                                    @ '' warnings found'')
                                 ''FDA MCP Server'' ''FDA-INGREDIENT'' [] (e_now env)])
                         else st1))))"

text \<open>Lines 76-84: the list to validate is \<open>data.ingredients\<close>, or
  \<open>data.extractedInformation.ingredients\<close> when the first is empty and the second is there.\<close>

definition ingredientsToValidate :: "js \<Rightarrow> exn + js" where
  "ingredientsToValidate data =
     (case field_default data ''ingredients'' (JArr []) of
        Inl e \<Rightarrow> Inl e
      | Inr ingredients \<Rightarrow>
          (case field_default data ''extractedInformation'' (JObj []) of
             Inl e \<Rightarrow> Inl e
           | Inr extractedInformation \<Rightarrow>
               (case obj_get ingredients ''length'' of
                  Inl e \<Rightarrow> Inl e
                | Inr len \<Rightarrow>
                    (if \<not> truthy len
                     then (case obj_get extractedInformation ''ingredients'' of
                             Inl e \<Rightarrow> Inl e
                           | Inr ei \<Rightarrow> Inr (if truthy ei then ei else ingredients))
                     else Inr ingredients))))"

text \<open>Lines 104-124: the condition \<open>r.result && r.result.content && r.result.content[0]\<close>;
  \<open>Inr None\<close> when it is falsy. A \<open>null\<close> response makes it throw.\<close>

definition first_content :: "js \<Rightarrow> exn + js option" where
  "first_content r =
     (case obj_get r ''result'' of
        Inl e \<Rightarrow> Inl e
      | Inr res \<Rightarrow>
          (if \<not> truthy res then Inr None
           else (let content = opt_get res ''content''
                 in if \<not> truthy content then Inr None
                    else (let c0 = opt_first content
                          in if truthy c0 then Inr (Some c0) else Inr None))))"

text \<open>The inner \<open>try\<close>/\<open>catch\<close>, lines 95-196, once the call has resolved or rejected: the
  value of \<open>fdaValidationResult\<close>, the issues and the recommendations.\<close>

definition service_error :: "env \<Rightarrow> js" where
  "service_error env = finding ''FDA_SERVICE_ERROR'' ''WARNING''
     ''FDA validation service temporarily unavailable - manual review recommended''
     ''FDA MCP Server'' ''FDA-INGREDIENT'' [] (e_now env)"

definition ingredient_findings :: "env \<Rightarrow> exn + js \<Rightarrow> js \<times> js list \<times> js list" where
  "ingredient_findings env settled =
     (case settled of
        Inl e \<Rightarrow> (JUndefined, [service_error env], [])
      | Inr r \<Rightarrow>
          (case first_content r of
             Inl e \<Rightarrow> (r, [service_error env], [])
           | Inr None \<Rightarrow> (r, [], [])
           | Inr (Some c0) \<Rightarrow>
               (case e_parse env (e_toStr env (opt_get c0 ''text'')) of
                  Inl e \<Rightarrow> (r, [], [])
                | Inr parsedResult \<Rightarrow>
                    (case processFDAResult env parsedResult ([], []) of
                       (issues, recommendations) \<Rightarrow> (r, issues, recommendations)))))"

definition no_ingredients :: "env \<Rightarrow> js" where
  "no_ingredients env = finding ''FDA_NO_INGREDIENTS'' ''WARNING''
     ''No ingredients detected - manual ingredient list review recommended''
     ''FDA Ingredient Database'' ''FDA-INGREDIENT'' [] (e_now env)"

text \<open>Lines 198-235: the default issue for an empty list, and the object that is returned.\<close>

definition ingredients_report :: "env \<Rightarrow> js \<Rightarrow> js \<times> js list \<times> js list \<Rightarrow> js" where
  "ingredients_report env toValidate x =
     (case x of (fdaValidationResult, issues0, recommendations) \<Rightarrow>
        (let len = opt_get toValidate ''length'';
             issues = (if len = JNum 0 then issues0 @ [no_ingredients env] else issues0)
         in JObj [(''success'', JBool True),
                  (''fdaValidation'', JObj
                    [(''ingredientsValidated'', len),
                     (''issues'', JArr issues),
                     (''recommendations'', JArr recommendations),
                     (''summary'', JObj
                        [(''totalIssues'', JNum (real (length issues))),
                         (''complianceIssues'', JNum (real (length (filter (severity_is ''COMPLIANCE'') issues)))),
                         (''warnings'', JNum (real (length (filter (severity_is ''WARNING'') issues)))),
                         (''recommendations'', JNum (real (length recommendations))),
                         (''ingredientsValidated'', len),
                         (''message'', JStr (if truthy fdaValidationResult
                            then ''FDA validation completed with real FDA API data''
                            else ''FDA validation completed with fallback data''))]),
                     (''processingTime'', JNum (e_elapsed env)),
                     (''validatedAt'', JStr (e_now env)),
                     (''source'', JStr ''FDA MCP Validation Server (Live API)''),
                     (''fdaApiResult'', fdaValidationResult)])]))"

text \<open>The outer \<open>catch\<close>, lines 237-262.\<close>

definition ingredients_failure :: "env \<Rightarrow> exn \<Rightarrow> js" where
  "ingredients_failure env error =
     JObj [(''success'', JBool False),
           (''error'', JStr (message error)),
           (''fdaValidation'', JObj
              [(''issues'', JArr [finding ''FDA_VALIDATION_ERROR'' ''ERROR''
                  (''FDA validation failed: '' @ message error)
                  ''FDA MCP Server'' ''FDA-ERROR'' [] (e_now env)]),
               (''recommendations'', JArr [finding ''FDA_RETRY'' ''INFO''
                  ''Retry FDA validation or perform manual regulatory review''
                  ''FDA MCP Server'' ''FDA-RETRY'' [] (e_now env)])])]"

text \<open>\<open>validateIngredientsWithFDA\<close>, lines 71-263: the tool calls it makes, in order, and what
  its promise settles to. It awaits the tool call on every path that gets past the
  destructuring of \<open>data\<close>.\<close>

definition validateIngredientsWithFDA :: "env \<Rightarrow> js \<Rightarrow> (string \<times> js) list \<times> js promise" where
  "validateIngredientsWithFDA env data =
     (case ingredientsToValidate data of
        Inl e \<Rightarrow> ([], Resolved (ingredients_failure env e))
      | Inr toValidate \<Rightarrow>
          (let args = JObj [(''ingredients'', toValidate)]
           in ([(''validate_ingredients'', args)],
               (case callFDAMCPTool env ''validate_ingredients'' args of
                  Pending \<Rightarrow> Pending
                | Rejected e \<Rightarrow>
                    Resolved (ingredients_report env toValidate (ingredient_findings env (Inl e)))
                | Resolved r \<Rightarrow>
                    Resolved (ingredients_report env toValidate (ingredient_findings env (Inr r)))))))"

text \<open>The callback of \<open>validationData.claimValidations?.forEach\<close>, lines 308-330. Here a
  throw leaves the activity's \<open>try\<close> block, so the arrays built so far are dropped.\<close>

definition claim_finding :: "env \<Rightarrow> string \<Rightarrow> string \<Rightarrow> js \<Rightarrow> js" where
  "claim_finding env ty severity validation =
     JObj [(''type'', JStr ty), (''severity'', JStr severity),
           (''claim'', opt_get validation ''claim''),
           (''message'', opt_get validation ''reason''),
           (''source'', (let s = opt_get validation ''fdaSource''
                         in if truthy s then s else JStr ''FDA Nutrition Labeling Guidelines'')),
           (''sourceTag'', JStr ''FDA-CLAIMS''),
           (''timestamp'', JStr (e_now env))]"

fun claim_checks :: "env \<Rightarrow> js list \<Rightarrow> js list \<times> js list \<Rightarrow> exn + js list \<times> js list" where
  "claim_checks env [] st = Inr st"
| "claim_checks env (validation # rest) st =
     (case obj_get validation ''isValid'' of
        Inl e \<Rightarrow> Inl e
      | Inr isValid \<Rightarrow>
          (if \<not> truthy isValid
           then claim_checks env rest
                  (fst st @ [claim_finding env ''FDA_INVALID_CLAIM'' ''COMPLIANCE'' validation], snd st)
           else claim_checks env rest
                  (fst st, snd st @ [claim_finding env ''FDA_VALID_CLAIM'' ''INFO'' validation])))"

text \<open>Lines 301-331: what is made of the resolved tool call. The text is looked for at
  \<open>claimsValidation.content?.[0]?.text\<close>, at the top level of the response.\<close>

definition claim_findings :: "env \<Rightarrow> js \<Rightarrow> exn + js list \<times> js list" where
  "claim_findings env claimsValidation =
     (case obj_get claimsValidation ''content'' of
        Inl e \<Rightarrow> Inl e
      | Inr content \<Rightarrow>
          (let text = opt_get (opt_first content) ''text''
           in if truthy text
              then (case e_parse env (e_toStr env text) of
                      Inl e \<Rightarrow> Inl e
                    | Inr validationData \<Rightarrow>
                        (case obj_get validationData ''claimValidations'' of
                           Inl e \<Rightarrow> Inl e
                         | Inr cvs \<Rightarrow>
                             (case cvs of
                                JUndefined \<Rightarrow> Inr ([], [])
                              | JNull \<Rightarrow> Inr ([], [])
                              | JArr vs \<Rightarrow> claim_checks env vs ([], [])
                              | _ \<Rightarrow> Inl (TypeError ''forEach is not a function''))))
              else Inr ([], [])))"

definition claims_failure :: "env \<Rightarrow> exn \<Rightarrow> js" where
  "claims_failure env error =
     JObj [(''success'', JBool False),
           (''error'', JStr (message error)),
           (''fdaClaimsValidation'', JObj
              [(''issues'', JArr [finding ''FDA_CLAIMS_ERROR'' ''ERROR''
                  (''FDA claims validation failed: '' @ message error)
                  ''FDA MCP Server'' ''FDA-ERROR'' [] (e_now env)])])]"

definition no_claims :: "env \<Rightarrow> js" where
  "no_claims env =
     JObj [(''success'', JBool True),
           (''fdaClaimsValidation'', JObj
              [(''claimsValidated'', JNum 0),
               (''issues'', JArr []),
               (''recommendations'', JArr [finding ''FDA_NO_CLAIMS'' ''INFO''
                  ''No nutritional claims detected - no FDA validation required''
                  ''FDA Claims Validation'' ''FDA-CLAIMS'' [] (e_now env)])])]"

definition claims_report :: "env \<Rightarrow> js \<Rightarrow> js list \<times> js list \<Rightarrow> js" where
  "claims_report env claims st =
     JObj [(''success'', JBool True),
           (''fdaClaimsValidation'', JObj
              [(''claimsValidated'', opt_get claims ''length''),
               (''issues'', JArr (fst st)),
               (''recommendations'', JArr (snd st)),
               (''processingTime'', JNum (e_elapsed env)),
               (''validatedAt'', JStr (e_now env))])]"

text \<open>\<open>validateNutritionalClaimsWithFDA\<close>, lines 268-364: the tool calls it makes and what its
  promise settles to.\<close>

definition validateNutritionalClaimsWithFDA :: "env \<Rightarrow> js \<Rightarrow> (string \<times> js) list \<times> js promise" where
  "validateNutritionalClaimsWithFDA env data =
     (case field_default data ''claims'' (JArr []) of
        Inl e \<Rightarrow> ([], Resolved (claims_failure env e))
      | Inr claims \<Rightarrow>
          (case field_default data ''nutritionalInfo'' (JObj []) of
             Inl e \<Rightarrow> ([], Resolved (claims_failure env e))
           | Inr nutritionalInfo \<Rightarrow>
               (case obj_get claims ''length'' of
                  Inl e \<Rightarrow> ([], Resolved (claims_failure env e))
                | Inr len \<Rightarrow>
                    (if \<not> truthy len then ([], Resolved (no_claims env))
                     else (let args = JObj [(''claims'', claims), (''nutritionalData'', nutritionalInfo)]
                           in ([(''validate_nutritional_claims'', args)],
                               (case callFDAMCPTool env ''validate_nutritional_claims'' args of
                                  Pending \<Rightarrow> Pending
                                | Rejected e \<Rightarrow> Resolved (claims_failure env e)
                                | Resolved r \<Rightarrow>
                                    (case claim_findings env r of
                                       Inl e \<Rightarrow> Resolved (claims_failure env e)
                                     | Inr st \<Rightarrow> Resolved (claims_report env claims st)))))))))"

text \<open>The findings of a settled activity result: the array \<open>issues\<close> under the given key.\<close>

definition issues_of :: "string \<Rightarrow> js promise \<Rightarrow> js list option" where
  "issues_of key p =
     (case p of
        Resolved r \<Rightarrow> (case opt_get (opt_get r key) ''issues'' of JArr xs \<Rightarrow> Some xs | _ \<Rightarrow> None)
      | _ \<Rightarrow> None)"

section \<open>Sample surroundings\<close>

text \<open>A conversion to strings that is right on strings, \<open>undefined\<close>, \<open>null\<close>, the booleans
  and the natural numbers; a conversion to numbers that is right on numbers.\<close>

definition sample_toStr :: "js \<Rightarrow> string" where
  "sample_toStr v =
     (case v of
        JStr s \<Rightarrow> s
      | JUndefined \<Rightarrow> ''undefined''
      | JNull \<Rightarrow> ''null''
      | JBool b \<Rightarrow> (if b then ''true'' else ''false'')
      | JNum x \<Rightarrow> show_nat (nat \<lfloor>x\<rfloor>)
      | JArr xs \<Rightarrow> ''''
      | JObj kvs \<Rightarrow> ''[object Object]'')"

definition sample_toNum :: "js \<Rightarrow> real option" where
  "sample_toNum v = (case v of JNum x \<Rightarrow> Some x | _ \<Rightarrow> None)"

text \<open>The payload the server computes for the claim "heart healthy", which names none of the
  six claim types, and the response line that carries it as the protocol has it: the payload
  is the text of \<open>result.content[0]\<close>. \<open>JSON.parse\<close> is given on these two texts.\<close>

definition heart_payload :: js where
  "heart_payload =
     JObj [(''claimValidations'', JArr
             [JObj [(''claim'', JStr ''heart healthy''), (''isValid'', JBool False),
                    (''reason'', JStr ''Claim not recognized or cannot be validated''),
                    (''fdaSource'', JStr ''FDA Nutrition Labeling Guidelines'')]]),
           (''source'', JStr ''FDA Nutritional Claims Validation''),
           (''validatedAt'', JStr ''2026-01-01T00:00:00.000Z'')]"

definition heart_response :: js where
  "heart_response =
     JObj [(''jsonrpc'', JStr ''2.0''), (''id'', JNum 1),
           (''result'', JObj [(''content'', JArr
              [JObj [(''type'', JStr ''text''), (''text'', JStr ''PAYLOAD'')]])])]"

definition sample_parse :: "string \<Rightarrow> exn + js" where
  "sample_parse s =
     (if s = ''RESPONSE'' then Inr heart_response
      else if s = ''PAYLOAD'' then Inr heart_payload
      else if s = ''EMPTY'' then Inr (JObj [(''jsonrpc'', JStr ''2.0''), (''id'', JNum 1),
           (''result'', JObj [(''content'', JArr
              [JObj [(''type'', JStr ''text''), (''text'', JStr ''EMPTYPAYLOAD'')]])])])
      else if s = ''EMPTYPAYLOAD'' then Inr (JObj [(''validationResults'', JArr []),
           (''summary'', JObj [(''totalIngredients'', JNum 0), (''approved'', JNum 0),
                               (''warnings'', JNum 0), (''source'', JStr ''FDA MCP Validation Server'')])])
      else Inl (SyntaxError ''Unexpected token''))"

definition sample_env :: "(string \<Rightarrow> js \<Rightarrow> child) \<Rightarrow> env" where
  "sample_env sp = \<lparr> e_parse = sample_parse, e_toStr = sample_toStr, e_toNum = sample_toNum,
     e_spawn = sp, e_now = ''2026-01-01T00:00:00.000Z'', e_elapsed = 12 \<rparr>"

definition heart_data :: js where
  "heart_data = JObj [(''claims'', JArr [JStr ''heart healthy'']), (''nutritionalInfo'', JObj [])]"

definition water_data :: js where
  "water_data = JObj [(''ingredients'', JArr [JStr ''water'', JStr ''sugar'', JStr ''salt''])]"


section \<open>The AI correction and extraction stage (aiValidation.js)\<close>

text \<open>The regular expression \<open>/```json\n([\s\S]*?)\n```/\<close>: the text between the first
  opening fence and the first closing fence after it.\<close>

definition match_fence :: "string \<Rightarrow> string option" where
  "match_fence s =
     (case find_sub s (''```json'' @ [CHR 0x0A]) of
        None \<Rightarrow> None
      | Some (before, rest) \<Rightarrow>
          (case find_sub rest (CHR 0x0A # ''```'') of
             None \<Rightarrow> None
           | Some (inner, after) \<Rightarrow> Some inner))"

text \<open>The regular expression \<open>/{[\s\S]*}/\<close>: from the first opening brace to the last closing
  brace after it.\<close>

definition match_braces :: "string \<Rightarrow> string option" where
  "match_braces s =
     (case dropWhile (\<lambda>c. c \<noteq> CHR ''{'') s of
        [] \<Rightarrow> None
      | b # t \<Rightarrow>
          (if CHR ''}'' \<in> set t
           then Some (b # rev (dropWhile (\<lambda>c. c \<noteq> CHR ''}'') (rev t)))
           else None))"

definition strs :: "string list \<Rightarrow> js" where
  "strs xs = JArr (map JStr xs)"

text \<open>\<open>parseAIResponse\<close>, lines 635-668. Whatever \<open>JSON.parse\<close> returns is returned as it
  is; the stub is built only when \<open>JSON.parse\<close> throws.\<close>

definition parseAIResponse :: "env \<Rightarrow> string \<Rightarrow> js \<Rightarrow> js" where
  "parseAIResponse env aiResponse fallbackText =
     (case (case match_fence aiResponse of
              Some inner \<Rightarrow> e_parse env inner
            | None \<Rightarrow>
                (case match_braces aiResponse of
                   Some obj \<Rightarrow> e_parse env obj
                 | None \<Rightarrow> e_parse env aiResponse)) of
        Inr parsed \<Rightarrow> parsed
      | Inl parseError \<Rightarrow>
          JObj [(''isValid'', JBool False),
                (''confidence'', JNum 0.4),
                (''correctedText'', fallbackText),
                (''extractedInformation'', JObj []),
                (''ocrIssuesFound'', strs [''Could not parse AI validation response'']),
                (''completenessScore'', JNum 4),
                (''complianceIssues'', strs [''AI response parsing failed'']),
                (''recommendations'', strs [''Manual review recommended'']),
                (''qualityImprovement'', JStr ''None''),
                (''rawAiResponse'', JStr (take 500 aiResponse @ ''...''))])"

text \<open>A call of a language-model provider, up to the text of its reply: it throws, or the
  reply's text is a string. A reply without a text (a TypeError at \<open>response.content[0].text\<close>
  or in \<open>parseAIResponse\<close>) is thrown inside the same \<open>try\<close> block and stands under
  \<open>Fails\<close>.\<close>

datatype completion = Fails exn | Replies string

text \<open>The two clients. The prompt is a fixed text around \<open>${ocrText}\<close>, so a provider is
  given as a function of \<open>ocrText\<close>; \<open>openai\<close> is \<open>None\<close> when no key is configured.\<close>

record providers =
  anthropic :: "js \<Rightarrow> completion"
  openai :: "(js \<Rightarrow> completion) option"

text \<open>Lines 755-834: \<open>validationResult\<close> and \<open>aiModel\<close> after the provider calls.\<close>

definition validation_result :: "env \<Rightarrow> providers \<Rightarrow> js \<Rightarrow> js \<times> string" where
  "validation_result env p ocrText =
     (case anthropic p ocrText of
        Replies aiResponse \<Rightarrow>
          (parseAIResponse env aiResponse ocrText, ''claude-3-5-sonnet-20241022'')
      | Fails claudeError \<Rightarrow>
          (case openai p of
             Some create \<Rightarrow>
               (case create ocrText of
                  Replies aiResponse \<Rightarrow> (parseAIResponse env aiResponse ocrText, ''gpt-4o-mini'')
                | Fails openaiError \<Rightarrow>
                    (JObj [(''isValid'', JBool False),
                           (''confidence'', JNum 0.3),
                           (''correctedText'', ocrText),
                           (''extractedInformation'', JObj []),
                           (''ocrIssuesFound'', strs [''Both AI providers failed to process'']),
                           (''completenessScore'', JNum 3),
                           (''complianceIssues'', strs [''AI validation unavailable'']),
                           (''recommendations'', strs [''Manual review required'']),
                           (''qualityImprovement'', JStr ''None''),
                           (''errors'', JObj [(''claude'', JStr (message claudeError)),
                                              (''openai'', JStr (message openaiError))])],
                     ''gpt-4o-mini''))
           | None \<Rightarrow>
               (JObj [(''isValid'', JBool False),
                      (''confidence'', JNum 0.4),
                      (''correctedText'', ocrText),
                      (''extractedInformation'', JObj []),
                      (''ocrIssuesFound'', strs [''Only Claude available, but failed to process'']),
                      (''completenessScore'', JNum 4),
                      (''complianceIssues'', strs [''AI validation partially unavailable'']),
                      (''recommendations'', strs [''Configure OpenAI as backup or manual review'']),
                      (''qualityImprovement'', JStr ''None''),
                      (''errors'', JObj [(''claude'', JStr (message claudeError)),
                                         (''openai'', JStr ''Not configured'')])],
                ''claude-3-5-sonnet-20241022'')))"

text \<open>The outer \<open>catch\<close>, lines 858-875.\<close>

definition validation_error :: "env \<Rightarrow> js \<Rightarrow> exn \<Rightarrow> js" where
  "validation_error env ocrText error =
     JObj [(''isValid'', JBool False),
           (''confidence'', JNum 0),
           (''correctedText'', ocrText),
           (''extractedInformation'', JObj []),
           (''ocrIssuesFound'', strs [''AI validation error: '' @ message error]),
           (''completenessScore'', JNum 0),
           (''complianceIssues'', strs [''AI validation failed - manual review required'']),
           (''recommendations'', strs [''Retry AI validation or perform manual review'']),
           (''qualityImprovement'', JStr ''None''),
           (''error'', JStr (message error)),
           (''processingTime'', JNum 0),
           (''validatedAt'', JStr (e_now env))]"

text \<open>\<open>performAIValidation\<close>, lines 674-876. On \<open>undefined\<close> or \<open>null\<close> the destructuring
  throws and so does \<open>data.ocrText\<close> in the \<open>catch\<close> block: that TypeError leaves the
  function. On any other \<open>data\<close> it returns; a missing \<open>ocrQuality\<close> throws at
  \<open>ocrQuality.overall\<close>, after the provider calls, and gives the result of the \<open>catch\<close>
  block.\<close>

definition performAIValidation :: "env \<Rightarrow> providers \<Rightarrow> js \<Rightarrow> exn + js" where
  "performAIValidation env p data =
     (case obj_get data ''ocrText'' of
        Inl e \<Rightarrow> Inl e
      | Inr ocrText \<Rightarrow>
          (let ocrQuality = opt_get data ''ocrQuality''
           in case validation_result env p ocrText of
                (validationResult, aiModel) \<Rightarrow>
                  (case obj_get ocrQuality ''overall'' of
                     Inl e \<Rightarrow> Inr (validation_error env ocrText e)
                   | Inr overall \<Rightarrow>
                       Inr (obj_lit (spread validationResult @
                              [(''originalOcrText'', ocrText),
                               (''aiModel'', JStr aiModel),
                               (''processingTime'', JNum (e_elapsed env)),
                               (''validatedAt'', JStr (e_now env)),
                               (''inputQuality'', overall),
                               (''inputConfidence'', opt_get ocrQuality ''confidence'')])))))"

text \<open>The input of the workflow's fourth step for a 50-character text of good quality, and
  the reply of the repository's test "should validate required response fields": an object
  with the single key \<open>someOtherField\<close>.\<close>

definition ai_data :: js where
  "ai_data =
     JObj [(''ocrText'', JStr ''INGREDIENTS: Water, Sugar, Salt. Net weight 12 oz.''),
           (''ocrQuality'', JObj [(''overall'', JStr ''good''), (''confidence'', JNum 0.92),
                                  (''issues'', JArr []), (''recommendations'', JArr [])]),
           (''imageUrl'', JStr ''https://example.com/test-image.jpg''),
           (''labelType'', JStr ''food-label''),
           (''detectedSections'', JObj [])]"

definition sparse_reply :: string where
  "sparse_reply = ''{'' @ dquote ''someOtherField'' @ '':'' @ dquote ''value'' @ ''}''"

definition ai_env :: env where
  "ai_env = \<lparr> e_parse = (\<lambda>s. if s = sparse_reply then Inr (JObj [(''someOtherField'', JStr ''value'')])
                               else Inl (SyntaxError ''Unexpected token'')),
              e_toStr = sample_toStr, e_toNum = sample_toNum,
              e_spawn = (\<lambda>t a. NeverCloses), e_now = ''2026-01-01T00:00:00.000Z'',
              e_elapsed = 12 \<rparr>"

definition sparse_providers :: providers where
  "sparse_providers = \<lparr> anthropic = (\<lambda>t. Replies sparse_reply), openai = None \<rparr>"

definition failing_providers :: providers where
  "failing_providers =
     \<lparr> anthropic = (\<lambda>t. Fails (Error ''Anthropic API error'')),
       openai = Some (\<lambda>t. Fails (Error ''OpenAI API error'')) \<rparr>"

text \<open>The secondary provider "also fails or is unconfigured": the message kept for it.\<close>

definition secondary_failure :: "providers \<Rightarrow> js \<Rightarrow> string option" where
  "secondary_failure p ocrText =
     (case openai p of
        None \<Rightarrow> Some ''Not configured''
      | Some create \<Rightarrow>
          (case create ocrText of Fails e \<Rightarrow> Some (message e) | Replies s \<Rightarrow> None))"

section \<open>Text extraction (ocr.js) and the workflow (labelValidation.js)\<close>

text \<open>The job payload, with the two fields \<open>preprocessImageForOCR\<close> adds.\<close>

record label_data =
  ld_workflowId :: "string option"
  ld_filename :: "string option"
  ld_imageUrl :: "string option"
  ld_imagePath :: "string option"
  ld_imageBuffer :: "string option"
  ld_type :: "string option"
  ld_regulations :: js
  ld_startTime :: "int option"
  ld_preprocessed :: "bool option"
  ld_preprocessedAt :: "string option"

text \<open>What the recognition engine gives for an image: \<open>Tesseract.recognize\<close> rejects (or
  resolves to something without \<open>data\<close>, which throws in the same \<open>try\<close> block), or it
  resolves to \<open>data\<close> with a text, a confidence from 0 to 100, words and lines.\<close>

record tess_data =
  d_text :: "string option"
  d_confidence :: "real option"
  d_words :: "ocr_word list option"
  d_lines :: "string option list option"

datatype engine = EngineFails exn | EngineData tess_data

text \<open>\<open>parseRegulatoryStructure\<close>, lines 522-546. Each pattern is a keyword (with an optional
  plural s), then \<open>[:\s-]*\<close>, then a lazy group that ends before the first line feed, the
  end of the text or one of the pattern's stop words. The patterns are matched on the
  lower-cased text, at the first occurrence of the keyword; a section is kept when its
  group is not empty.\<close>

definition is_sep :: "char \<Rightarrow> bool" where
  "is_sep c = (c = CHR '':'' \<or> is_space c \<or> c = CHR ''-'')"

primrec starts_any :: "string \<Rightarrow> string list \<Rightarrow> bool" where
  "starts_any s [] = False"
| "starts_any s (k # ks) = (starts_with s k \<or> starts_any s ks)"

primrec lazy_group :: "string list \<Rightarrow> string \<Rightarrow> string" where
  "lazy_group stops [] = []"
| "lazy_group stops (c # cs) =
     (if c = CHR 0x0A \<or> starts_any (c # cs) stops then [] else c # lazy_group stops cs)"

definition section_match :: "string \<Rightarrow> bool \<Rightarrow> string list \<Rightarrow> string \<Rightarrow> string option" where
  "section_match keyword plural stops lowerText =
     (case find_sub lowerText keyword of
        None \<Rightarrow> None
      | Some (before, rest) \<Rightarrow>
          Some (lazy_group stops
                  (dropWhile is_sep
                     (if plural \<and> starts_with rest ''s'' then drop 1 rest else rest))))"

definition patterns :: "(string \<times> string \<times> bool \<times> string list) list" where
  "patterns =
     [(''ingredients'', ''ingredient'', True, [''directions'', ''warnings'', ''caution'']),
      (''directions'', ''direction'', True, [''ingredients'', ''warnings'', ''caution'']),
      (''warnings'', ''warning'', True, [''ingredients'', ''directions'']),
      (''caution'', ''caution'', False, [''ingredients'', ''directions'', ''warnings'']),
      (''dosage'', ''dosage'', False, [''ingredients'', ''directions'', ''warnings'']),
      (''activeIngredients'', ''active ingredient'', True, [''inactive'', ''directions'']),
      (''inactiveIngredients'', ''inactive ingredient'', True, [''active'', ''directions''])]"

primrec extract_sections :: "(string \<times> string \<times> bool \<times> string list) list \<Rightarrow> string \<Rightarrow> (string \<times> string) list" where
  "extract_sections [] lowerText = []"
| "extract_sections (pat # pats) lowerText =
     (case pat of (section, keyword, plural, stops) \<Rightarrow>
        (case section_match keyword plural stops lowerText of
           None \<Rightarrow> extract_sections pats lowerText
         | Some g \<Rightarrow>
             (if g = [] then extract_sections pats lowerText
              else (section, trim g) # extract_sections pats lowerText)))"

definition parseRegulatoryStructure :: "string \<Rightarrow> (string \<times> string) list" where
  "parseRegulatoryStructure text = extract_sections patterns (toLowerCase text)"

text \<open>What \<open>performOCR\<close> takes from outside: the engine as a function of the image source,
  the clock at the start and at the end, and the timestamp.\<close>

record ocr_env =
  o_recognize :: "string \<Rightarrow> engine"
  o_start :: int
  o_end :: int
  o_now :: string

definition nonempty :: "string option \<Rightarrow> bool" where
  "nonempty x = (case x of None \<Rightarrow> False | Some s \<Rightarrow> s \<noteq> [])"

text \<open>\<open>a || b\<close> on strings that may be absent: the first that is there and not empty.\<close>

definition or_else :: "string option \<Rightarrow> string option \<Rightarrow> string option" where
  "or_else a b = (if nonempty a then a else b)"

text \<open>Lines 431-448: the image source, or the Error thrown when there is none. A buffer is
  an object, so it counts whenever it is there.\<close>

definition image_source :: "label_data \<Rightarrow> exn + string" where
  "image_source labelData =
     (case or_else (ld_imageUrl labelData) (or_else (ld_imagePath labelData) (ld_imageBuffer labelData)) of
        Some src \<Rightarrow> Inr src
      | None \<Rightarrow> Inl (Error ''No valid image source provided (imageUrl, imagePath, or imageBuffer)''))"

text \<open>\<open>line.text.trim()\<close> over the lines: a line without text throws.\<close>

fun trim_lines :: "string option list \<Rightarrow> exn + string list" where
  "trim_lines [] = Inr []"
| "trim_lines (l # ls) =
     (case l of
        None \<Rightarrow> Inl (TypeError (cannot_read ''undefined'' ''trim''))
      | Some t \<Rightarrow> (case trim_lines ls of Inl e \<Rightarrow> Inl e | Inr ts \<Rightarrow> Inr (trim t # ts)))"

text \<open>Lines 457-491: the result object built from \<open>data\<close>.\<close>

definition ocr_success_result :: "ocr_env \<Rightarrow> label_data \<Rightarrow> tess_data \<Rightarrow> exn + ocr_result" where
  "ocr_success_result env labelData data =
     (case d_text data of
        None \<Rightarrow> Inl (TypeError (cannot_read ''undefined'' ''trim''))
      | Some t \<Rightarrow>
          (let words = (case d_words data of None \<Rightarrow> [] | Some ws \<Rightarrow> ws)
           in case trim_lines (case d_lines data of None \<Rightarrow> [] | Some ls \<Rightarrow> ls) of
                Inl e \<Rightarrow> Inl e
              | Inr ls \<Rightarrow>
                  Inr \<lparr> ocr_success = None, ocr_error = None,
                        ocr_text = Some (trim t),
                        ocr_confidence = map_option (\<lambda>c. c / 100) (d_confidence data),
                        ocr_meanConfidence = d_confidence data,
                        ocr_words = Some words,
                        ocr_processingTime = Some (o_end env - o_start env),
                        ocr_filename = ld_filename labelData,
                        ocr_imageSource =
                          or_else (ld_imageUrl labelData)
                            (or_else (ld_imagePath labelData) (Some ''buffer'')),
                        ocr_lines = Some (filter (\<lambda>line. length line > 0) ls),
                        ocr_totalWords = Some (real (length words)),
                        ocr_lowConfidenceWords =
                          Some (real (length (filter (\<lambda>word. w_confidence word < 60) words))),
                        ocr_averageWordConfidence = Some
                          (if length words > 0
                           then foldl (\<lambda>sum word. sum + w_confidence word) 0 words / real (length words)
                           else 0),
                        ocr_extractedAt = Some (o_now env),
                        ocr_detectedSections = Some (parseRegulatoryStructure t) \<rparr>))"

text \<open>Lines 505-515: the object of the \<open>catch\<close> block. It has the five fields below and no
  others.\<close>

definition ocr_failure_result :: "ocr_env \<Rightarrow> label_data \<Rightarrow> exn \<Rightarrow> ocr_result" where
  "ocr_failure_result env labelData error =
     empty_ocr \<lparr> ocr_success := Some False,
                 ocr_error := Some (message error),
                 ocr_filename := ld_filename labelData,
                 ocr_processingTime := Some (o_end env -
                    (case ld_startTime labelData of
                       None \<Rightarrow> o_end env
                     | Some s \<Rightarrow> (if s = 0 then o_end env else s))),
                 ocr_extractedAt := Some (o_now env) \<rparr>"

text \<open>\<open>performOCR\<close>, lines 411-516: everything after the first log line is inside one \<open>try\<close>
  whose \<open>catch\<close> returns.\<close>

definition performOCR :: "ocr_env \<Rightarrow> label_data \<Rightarrow> exn + ocr_result" where
  "performOCR env labelData =
     (case (case image_source labelData of
              Inl e \<Rightarrow> Inl e
            | Inr imageSource \<Rightarrow>
                (case o_recognize env imageSource of
                   EngineFails e \<Rightarrow> Inl e
                 | EngineData data \<Rightarrow> ocr_success_result env labelData data)) of
        Inr result \<Rightarrow> Inr result
      | Inl error \<Rightarrow> Inr (ocr_failure_result env labelData error))"

text \<open>\<open>preprocessImageForOCR\<close>, lines 551-567.\<close>

definition preprocessImageForOCR :: "string \<Rightarrow> label_data \<Rightarrow> exn + label_data" where
  "preprocessImageForOCR now labelData =
     Inr (labelData \<lparr> ld_preprocessed := Some True, ld_preprocessedAt := Some now \<rparr>)"

text \<open>\<open>performComplianceCheck\<close> (activities index): the fixed object it returns for now.\<close>

definition performComplianceCheck :: "string \<Rightarrow> js \<Rightarrow> exn + js" where
  "performComplianceCheck now data =
     Inr (JObj [(''compliant'', JBool True), (''violations'', JArr []), (''warnings'', JArr []),
                (''score'', JNum 95), (''checkedAt'', JStr now)])"

text \<open>Records as the objects the activities receive.\<close>

definition opt_str :: "string option \<Rightarrow> js" where
  "opt_str x = (case x of None \<Rightarrow> JUndefined | Some s \<Rightarrow> JStr s)"

definition opt_num :: "real option \<Rightarrow> js" where
  "opt_num x = (case x of None \<Rightarrow> JUndefined | Some v \<Rightarrow> JNum v)"

definition assessment_js :: "assessment \<Rightarrow> js" where
  "assessment_js q =
     JObj [(''overall'', JStr (qa_overall q)),
           (''confidence'', opt_num (qa_confidence q)),
           (''issues'', strs (qa_issues q)),
           (''recommendations'', strs (qa_recommendations q)),
           (''assessedAt'', JStr (qa_assessedAt q))]"

definition sections_js :: "(string \<times> string) list option \<Rightarrow> js" where
  "sections_js x = (case x of None \<Rightarrow> JUndefined | Some kvs \<Rightarrow> JObj (map (\<lambda>kv. (fst kv, JStr (snd kv))) kvs))"

record processing_steps =
  ps_preprocessing :: "bool option"
  ps_ocrCompleted :: bool
  ps_qualityAssessed :: bool
  ps_aiValidated :: bool
  ps_complianceChecked :: bool

record workflow_result =
  wf_workflowId :: "string option"
  wf_filename :: "string option"
  wf_status :: string
  wf_ocrResult :: ocr_result
  wf_qualityAssessment :: assessment
  wf_validationResult :: js
  wf_complianceResult :: js
  wf_processingSteps :: processing_steps
  wf_completedAt :: string

text \<open>\<open>labelValidationWorkflow\<close>, lines 12-71: the five activities in sequence, each awaited;
  the \<open>catch\<close> block logs and rethrows. The activities are the repository's own functions.\<close>

definition labelValidationWorkflow :: "ocr_env \<Rightarrow> env \<Rightarrow> providers \<Rightarrow> label_data \<Rightarrow> exn + workflow_result" where
  "labelValidationWorkflow oenv env p labelData =
     (case preprocessImageForOCR (o_now oenv) labelData of
        Inl e \<Rightarrow> Inl e
      | Inr preprocessedData \<Rightarrow>
     (case performOCR oenv preprocessedData of
        Inl e \<Rightarrow> Inl e
      | Inr ocrResult \<Rightarrow>
     (case assessOCRQuality (o_now oenv) ocrResult of
        Inl e \<Rightarrow> Inl e
      | Inr qualityAssessment \<Rightarrow>
     (case performAIValidation env p
             (JObj [(''ocrText'', opt_str (ocr_text ocrResult)),
                    (''ocrQuality'', assessment_js qualityAssessment),
                    (''imageUrl'', opt_str (ld_imageUrl labelData)),
                    (''labelType'', opt_str (ld_type labelData)),
                    (''detectedSections'', sections_js (ocr_detectedSections ocrResult))]) of
        Inl e \<Rightarrow> Inl e
      | Inr validationResult \<Rightarrow>
     (case performComplianceCheck (o_now oenv)
             (JObj [(''validationResult'', validationResult),
                    (''regulations'', ld_regulations labelData)]) of
        Inl e \<Rightarrow> Inl e
      | Inr complianceResult \<Rightarrow>
          Inr \<lparr> wf_workflowId = ld_workflowId labelData,
                wf_filename = ld_filename labelData,
                wf_status = (if truthy (opt_get complianceResult ''compliant'')
                             then ''APPROVED'' else ''REQUIRES_REVIEW''),
                wf_ocrResult = ocrResult,
                wf_qualityAssessment = qualityAssessment,
                wf_validationResult = validationResult,
                wf_complianceResult = complianceResult,
                wf_processingSteps =
                  \<lparr> ps_preprocessing = ld_preprocessed preprocessedData,
                    ps_ocrCompleted = nonempty (ocr_text ocrResult),
                    ps_qualityAssessed = (qa_overall qualityAssessment \<noteq> []),
                    ps_aiValidated = truthy (opt_get validationResult ''isValid''),
                    ps_complianceChecked = truthy (opt_get complianceResult ''compliant'') \<rparr>,
                wf_completedAt = o_now oenv \<rparr>)))))"

text \<open>The job and the engine of the repository's test "should handle OCR processing errors",
  and an engine that reads a clear label.\<close>

definition test_label :: label_data where
  "test_label = \<lparr> ld_workflowId = None, ld_filename = Some ''test-label.jpg'',
     ld_imageUrl = Some ''https://example.com/test-image.jpg'', ld_imagePath = None,
     ld_imageBuffer = None, ld_type = Some ''food-label'', ld_regulations = JUndefined,
     ld_startTime = None, ld_preprocessed = None, ld_preprocessedAt = None \<rparr>"

definition failing_engine :: ocr_env where
  "failing_engine = \<lparr> o_recognize = (\<lambda>src. EngineFails (Error ''OCR processing failed'')),
     o_start = 1000, o_end = 1012,
     o_now = ''2026-01-01T00:00:00.000Z'' \<rparr>"


section \<open>The quality gate: tiers\<close>



text \<open>For every extraction result that carries a text and a confidence of at least 0.85, the
  quality gate returns and assigns the tier "good", whatever the share of low-confidence
  words.\<close>

lemma quality_gate_good:
  assumes "ocr_confidence r = Some c" and "0.85 \<le> c" and "ocr_text r = Some t"
  shows "\<exists>q. assessOCRQuality now r = Inr q \<and> qa_overall q = ''good''"
  using assms by (simp add: assessOCRQuality_def num_lt_def Let_def)

lemma quality_gate_good_witness:
  "\<exists>q. assessOCRQuality ''2026-01-01T00:00:00.000Z'' highQualityOCR = Inr q
       \<and> qa_overall q = ''good''"
  using quality_gate_good [of highQualityOCR "0.92" _ "''2026-01-01T00:00:00.000Z''"]
  by (simp add: highQualityOCR_def empty_ocr_def)

text \<open>The gate has three tiers: whatever it is given, the tier it returns is "good", "fair" or
  "poor", and never "excellent".\<close>

lemma quality_gate_three_tiers:
  assumes "assessOCRQuality now r = Inr q"
  shows "qa_overall q = ''good'' \<or> qa_overall q = ''fair'' \<or> qa_overall q = ''poor''"
    and "qa_overall q \<noteq> ''excellent''"
  using assms
  by (auto simp add: assessOCRQuality_def Let_def split: option.splits if_splits)

text \<open>
  Claim C6 (confidence at least 0.85 and fewer than one word in ten of low confidence give
  the tier "excellent"). No branch of \<open>assessOCRQuality\<close> assigns "excellent": the tier
  starts as "good" and is only ever lowered to "fair" or "poor". At the high-quality input
  of the repository's test \<open>ocr.test.js\<close> (confidence 0.92, none of eight words of low
  confidence), where the test expects "excellent", the tier is "good".
\<close>

theorem high_quality_tier_is_good:
  "ocr_confidence highQualityOCR = Some 0.92 \<and> (0.85::real) \<le> 0.92
   \<and> ocr_lowConfidenceWords highQualityOCR = Some 0 \<and> ocr_totalWords highQualityOCR = Some 8
   \<and> (0::real) / 8 < 0.1
   \<and> map_sum message qa_overall (assessOCRQuality ''2026-01-01T00:00:00.000Z'' highQualityOCR)
       = Inr ''good''
   \<and> map_sum message qa_overall (assessOCRQuality ''2026-01-01T00:00:00.000Z'' highQualityOCR)
       \<noteq> Inr ''excellent''
   \<and> map_sum message qa_issues (assessOCRQuality ''2026-01-01T00:00:00.000Z'' highQualityOCR)
       = Inr []"
  by (simp add: assessOCRQuality_def highQualityOCR_def empty_ocr_def num_lt_def num_mul_def Let_def)

text \<open>
  Claim C7 as written (a text shorter than 50 characters forces the tier "poor", whatever the
  confidence) fails on the code: the length check only appends an issue and a recommendation,
  it never touches the tier. A four-character text read with confidence 0.95 is "good".
\<close>

theorem quality_gate_short_text_counterexample:
  "ocr_text shortTextOCR = Some ''SALT'' \<and> length ''SALT'' < 50
   \<and> map_sum message qa_overall (assessOCRQuality ''2026-01-01T00:00:00.000Z'' shortTextOCR)
       = Inr ''good''
   \<and> map_sum message qa_overall (assessOCRQuality ''2026-01-01T00:00:00.000Z'' shortTextOCR)
       \<noteq> Inr ''poor''
   \<and> map_sum message qa_issues (assessOCRQuality ''2026-01-01T00:00:00.000Z'' shortTextOCR)
       = Inr [''Very short text extracted'']"
  by (simp add: assessOCRQuality_def shortTextOCR_def empty_ocr_def num_lt_def num_mul_def Let_def)

text \<open>
  Claim C7, amended: for every extraction result whose text is shorter than 50 characters
  (the empty string included), the quality gate returns, its issues include "Very short text
  extracted" whatever the confidence, and the tier is "poor" exactly when the confidence is
  below 0.7.
\<close>

theorem quality_gate_short_text:
  assumes "ocr_text r = Some t" and "length t < 50"
  shows "\<exists>q. assessOCRQuality now r = Inr q
           \<and> ''Very short text extracted'' \<in> set (qa_issues q)
           \<and> (qa_overall q = ''poor'' \<longleftrightarrow> num_lt (ocr_confidence r) (Some 0.7))"
  using assms by (simp add: assessOCRQuality_def Let_def)

theorem quality_gate_short_text_witness:
  "\<exists>q. assessOCRQuality ''2026-01-01T00:00:00.000Z'' shortTextOCR = Inr q
           \<and> ''Very short text extracted'' \<in> set (qa_issues q)
           \<and> (qa_overall q = ''poor'' \<longleftrightarrow> num_lt (ocr_confidence shortTextOCR) (Some 0.7))"
  using quality_gate_short_text [of shortTextOCR "''SALT''" "''2026-01-01T00:00:00.000Z''"]
  by (simp add: shortTextOCR_def empty_ocr_def)

section \<open>Nutritional claims against the thresholds\<close>

lemma match_claim_unrecognized:
  "\<forall>t \<in> set (map fst tbl). \<not> str_includes nc t \<Longrightarrow>
   match_claim nc nd tbl = Inr (False, ''Claim not recognized or cannot be validated'')"
  by (induction tbl) auto

text \<open>A claim that names none of the six claim types (in any letter case: the claim is
  lower-cased first) is not valid, with the reason "Claim not recognized or cannot be
  validated", whatever the nutritional data.\<close>

lemma validateSingleClaim_unrecognized:
  assumes "\<forall>t \<in> set (map fst fdaThresholds). \<not> str_includes (toLowerCase claim) t"
  shows "validateSingleClaim claim nd =
           Inr \<lparr> cv_claim = claim, cv_isValid = False,
                 cv_reason = ''Claim not recognized or cannot be validated'',
                 cv_fdaSource = ''FDA Nutrition Labeling Guidelines'' \<rparr>"
  using match_claim_unrecognized [OF assms, of nd] by (simp add: validateSingleClaim_def)

text \<open>"low fat" on string-valued data of at most 15 digits and dots (where the decimal read
  here and the double of the code compare alike with the threshold): valid exactly when the
  number read from the string is at most 3.\<close>

lemma low_fat_threshold:
  assumes "str_includes (toLowerCase claim) ''low fat''"
    and "map_of kvs ''totalFat'' = Some (JStr s)"
    and "length (strip_non_numeric s) \<le> 15"
    and "parseFloat (or_zero (Some (strip_non_numeric s))) = Some v"
  shows "map_sum message cv_isValid (validateSingleClaim claim (JObj kvs)) = Inr (v \<le> 3)"
  using assms by (auto simp add: validateSingleClaim_def fdaThresholds_def num_lt_def)

lemma low_fat_examples:
  "map_sum message cv_isValid
     (validateSingleClaim ''low fat'' (JObj [(''totalFat'', JStr ''2g'')])) = Inr True"
  "map_sum message (\<lambda>v. (cv_isValid v, cv_reason v))
     (validateSingleClaim ''low fat'' (JObj [(''totalFat'', JStr ''5g'')]))
     = Inr (False, ''Claim does not meet FDA requirements for '' @ dquote ''low fat'')"
  "map_sum message cv_isValid
     (validateSingleClaim ''low fat'' (JObj [(''totalFat'', JStr ''3g'')])) = Inr True"
  "map_sum message cv_isValid
     (validateSingleClaim ''low fat'' (JObj [(''totalFat'', JNum 2)]))
     = Inl ''replace is not a function''"
  by (simp_all add: validateSingleClaim_def fdaThresholds_def toLowerCase_def lower_char_def
      or_zero_def strip_non_numeric_def is_digit_def parseFloat_def digits_val_def digit_val_def
      num_lt_def)

text \<open>"sodium free": the same comparison \<open>actualValue > maxValue\<close> serves every claim type, so
  the claim is valid up to and including 5.\<close>

lemma sodium_free_threshold:
  assumes "\<not> str_includes (toLowerCase claim) ''low fat''"
    and "\<not> str_includes (toLowerCase claim) ''fat free''"
    and "\<not> str_includes (toLowerCase claim) ''low sodium''"
    and "str_includes (toLowerCase claim) ''sodium free''"
    and "map_of kvs ''sodium'' = Some (JStr s)"
    and "length (strip_non_numeric s) \<le> 15"
    and "parseFloat (or_zero (Some (strip_non_numeric s))) = Some v"
  shows "map_sum message cv_isValid (validateSingleClaim claim (JObj kvs)) = Inr (v \<le> 5)"
  using assms by (auto simp add: validateSingleClaim_def fdaThresholds_def num_lt_def)

text \<open>
  Claim C9 (a "sodium free" claim is valid exactly when sodium is below 5 mg; a "low fat"
  claim exactly when total fat is at most 3 g). The table's own comment for "sodium free"
  reads "Less than 5mg per serving", but the check rejects only values above the entry: at
  exactly 5 mg the claim "sodium free" is accepted, with the reason that it meets the
  requirements.
\<close>

theorem sodium_free_at_five:
  "map_sum message (\<lambda>v. (cv_isValid v, cv_reason v))
     (validateSingleClaim ''sodium free'' (JObj [(''sodium'', JStr ''5mg'')]))
   = Inr (True, ''Claim meets FDA requirements for '' @ dquote ''sodium free'')"
  by (simp add: validateSingleClaim_def fdaThresholds_def toLowerCase_def lower_char_def
      or_zero_def strip_non_numeric_def is_digit_def parseFloat_def digits_val_def digit_val_def
      num_lt_def)

text \<open>A response without \<open>content\<close> at its top level gives no finding, whatever it carries
  under \<open>result\<close>.\<close>

lemma claim_findings_no_top_level_content:
  "map_of kvs ''content'' = None \<Longrightarrow> claim_findings env (JObj kvs) = Inr ([], [])"
  by (simp add: claim_findings_def opt_first_def opt_get_def)

text \<open>Had the response carried \<open>content\<close> at its top level, the claims activity would have
  made the COMPLIANCE finding of the unrecognised claim.\<close>

lemma top_level_content_gives_finding:
  "claim_findings (sample_env sp)
     (JObj [(''content'', JArr [JObj [(''type'', JStr ''text''), (''text'', JStr ''PAYLOAD'')]])])
   = Inr ([claim_finding (sample_env sp) ''FDA_INVALID_CLAIM'' ''COMPLIANCE''
            (JObj [(''claim'', JStr ''heart healthy''), (''isValid'', JBool False),
                    (''reason'', JStr ''Claim not recognized or cannot be validated''),
                    (''fdaSource'', JStr ''FDA Nutrition Labeling Guidelines'')])], [])"
  by (simp add: claim_findings_def opt_get_def opt_first_def sample_env_def sample_toStr_def
      sample_parse_def heart_payload_def)

text \<open>
  Claim C10 (an unrecognised claim is not valid, with the reason "Claim not recognized or
  cannot be validated", and the claims activity therefore emits a COMPLIANCE finding for
  it). The first half holds in the server. The activity, however, looks for the payload at
  \<open>content[0].text\<close> of the response, while the response carries it at
  \<open>result.content[0].text\<close> (where \<open>validateIngredientsWithFDA\<close> reads it): for the claim
  "heart healthy" the server's verdict is not valid, and the activity returns no finding at
  all.
\<close>

theorem unrecognized_claim_no_finding:
  "validateNutritionalClaims [''heart healthy''] (JObj []) =
     Inr [\<lparr> cv_claim = ''heart healthy'', cv_isValid = False,
             cv_reason = ''Claim not recognized or cannot be validated'',
             cv_fdaSource = ''FDA Nutrition Labeling Guidelines'' \<rparr>]
   \<and> issues_of ''fdaClaimsValidation''
        (snd (validateNutritionalClaimsWithFDA
               (sample_env (\<lambda>t a. Closes (Some 0) ''RESPONSE'' [])) heart_data)) = Some []"
  by (simp add: validateSingleClaim_def fdaThresholds_def toLowerCase_def lower_char_def
       validateNutritionalClaimsWithFDA_def heart_data_def field_default_def sample_env_def
       callFDAMCPTool_def trim_def is_space_def last_line_def sample_parse_def heart_response_def
       claim_findings_def opt_get_def opt_first_def claims_report_def issues_of_def)

section \<open>The regulatory cross-check\<close>


text \<open>A server process that ends without exit code 0 (here: ended by a signal) is reported as
  the WARNING finding \<open>FDA_SERVICE_ERROR\<close>.\<close>

lemma killed_subprocess_warning:
  "issues_of ''fdaValidation''
     (snd (validateIngredientsWithFDA (sample_env (\<lambda>t a. Closes None [] [])) water_data))
     = Some [service_error (sample_env (\<lambda>t a. Closes None [] []))]
   \<and> severity_is ''WARNING'' (service_error (sample_env (\<lambda>t a. Closes None [] [])))"
  by (simp add: validateIngredientsWithFDA_def water_data_def ingredientsToValidate_def
       field_default_def callFDAMCPTool_def sample_env_def issues_of_def ingredients_report_def
       ingredient_findings_def opt_get_def service_error_def finding_def severity_is_def Let_def)

text \<open>Whatever the ingredients, a server process that never closes leaves the activity
  pending.\<close>

lemma silent_subprocess_pending:
  assumes "ingredientsToValidate data = Inr tv"
    and "e_spawn env ''validate_ingredients'' (JObj [(''ingredients'', tv)]) = NeverCloses"
  shows "snd (validateIngredientsWithFDA env data) = Pending"
  using assms by (simp add: validateIngredientsWithFDA_def callFDAMCPTool_def Let_def)

text \<open>
  Claim C2 (a server process that never responds is killed after 5 seconds and the call
  completes with a WARNING finding). \<open>callFDAMCPTool\<close> sets no timer and never kills the
  child: with a process that never closes, the call is made and the activity's promise never
  settles, so no finding is ever produced.
\<close>

theorem silent_subprocess_never_settles:
  "validateIngredientsWithFDA (sample_env (\<lambda>t a. NeverCloses)) water_data
     = ([(''validate_ingredients'',
          JObj [(''ingredients'', JArr [JStr ''water'', JStr ''sugar'', JStr ''salt''])])], Pending)
   \<and> issues_of ''fdaValidation''
        (snd (validateIngredientsWithFDA (sample_env (\<lambda>t a. NeverCloses)) water_data)) = None"
  by (simp add: validateIngredientsWithFDA_def water_data_def ingredientsToValidate_def
       field_default_def callFDAMCPTool_def sample_env_def issues_of_def)







section \<open>The AI stage: provider fallback and parsing\<close>

lemma parseAIResponse_passthrough:
  assumes "match_fence s = None" and "match_braces s = Some t" and "e_parse env t = Inr v"
  shows "parseAIResponse env s fb = v"
  using assms by (simp add: parseAIResponse_def)

lemma sparse_match:
  "match_fence sparse_reply = None \<and> match_braces sparse_reply = Some sparse_reply"
  by (simp add: sparse_reply_def dquote_def match_fence_def match_braces_def)

text \<open>
  Claim C5 (a reply that parses as JSON but lacks the keys \<open>isValid\<close>, \<open>confidence\<close>,
  \<open>correctedText\<close> or \<open>extractedInformation\<close> is treated as a parse failure and gives the
  fallback stub). \<open>parseAIResponse\<close> checks no key: the reply of the repository's test
  "should validate required response fields" is returned as parsed and spread into the
  result, which then has no \<open>isValid\<close>, no \<open>confidence\<close> and no \<open>correctedText\<close>.
\<close>

theorem sparse_reply_passes_through:
  "performAIValidation ai_env sparse_providers ai_data =
     Inr (JObj [(''someOtherField'', JStr ''value''),
                (''originalOcrText'', JStr ''INGREDIENTS: Water, Sugar, Salt. Net weight 12 oz.''),
                (''aiModel'', JStr ''claude-3-5-sonnet-20241022''),
                (''processingTime'', JNum 12),
                (''validatedAt'', JStr ''2026-01-01T00:00:00.000Z''),
                (''inputQuality'', JStr ''good''),
                (''inputConfidence'', JNum 0.92)])"
  by (simp add: performAIValidation_def ai_data_def opt_get_def validation_result_def
      sparse_providers_def parseAIResponse_def sparse_match ai_env_def obj_lit_def)

lemma both_failed_result:
  assumes "obj_get data ''ocrText'' = Inr ocrText"
    and "obj_get (opt_get data ''ocrQuality'') ''overall'' = Inr overall"
    and "anthropic p ocrText = Fails e1"
    and "openai p = Some create" and "create ocrText = Fails e2"
  shows "\<exists>r. performAIValidation env p data = Inr r
          \<and> opt_get r ''aiProvider'' = JUndefined
          \<and> opt_get r ''aiModel'' = JStr ''gpt-4o-mini''
          \<and> opt_get r ''isValid'' = JBool False
          \<and> opt_get r ''confidence'' = JNum 0.3
          \<and> opt_get r ''correctedText'' = ocrText
          \<and> opt_get r ''errors''
              = JObj [(''claude'', JStr (message e1)), (''openai'', JStr (message e2))]"
  using assms
  by (simp add: performAIValidation_def validation_result_def obj_lit_def opt_get_def Let_def)

lemma unconfigured_result:
  assumes "obj_get data ''ocrText'' = Inr ocrText"
    and "obj_get (opt_get data ''ocrQuality'') ''overall'' = Inr overall"
    and "anthropic p ocrText = Fails e1"
    and "openai p = None"
  shows "\<exists>r. performAIValidation env p data = Inr r
          \<and> opt_get r ''aiProvider'' = JUndefined
          \<and> opt_get r ''aiModel'' = JStr ''claude-3-5-sonnet-20241022''
          \<and> opt_get r ''isValid'' = JBool False
          \<and> opt_get r ''confidence'' = JNum 0.4
          \<and> opt_get r ''correctedText'' = ocrText
          \<and> opt_get r ''errors''
              = JObj [(''claude'', JStr (message e1)), (''openai'', JStr ''Not configured'')]"
  using assms
  by (simp add: performAIValidation_def validation_result_def obj_lit_def opt_get_def Let_def)

text \<open>Whenever the primary provider call throws and the secondary provider also throws or is
  unconfigured, and the input carries an \<open>ocrQuality\<close> object, \<open>performAIValidation\<close>
  returns a record with \<open>isValid\<close> false, \<open>correctedText\<close> equal to the OCR text, confidence
  0.3 (secondary threw) or 0.4 (secondary unconfigured), and an \<open>errors\<close> map with the
  primary's message under \<open>claude\<close> and the secondary's message, or "Not configured", under
  \<open>openai\<close>. The record has no field \<open>aiProvider\<close>; its field \<open>aiModel\<close> names the model
  tried last.\<close>

lemma providers_fail_degraded:
  assumes "obj_get data ''ocrText'' = Inr ocrText"
    and "obj_get (opt_get data ''ocrQuality'') ''overall'' = Inr overall"
    and "anthropic p ocrText = Fails e1"
    and "secondary_failure p ocrText = Some m2"
  shows "\<exists>r. performAIValidation env p data = Inr r
          \<and> opt_get r ''aiProvider'' = JUndefined
          \<and> opt_get r ''aiModel''
              = JStr (if openai p = None then ''claude-3-5-sonnet-20241022'' else ''gpt-4o-mini'')
          \<and> opt_get r ''isValid'' = JBool False
          \<and> opt_get r ''confidence'' = JNum (if openai p = None then 0.4 else 0.3)
          \<and> opt_get r ''correctedText'' = ocrText
          \<and> opt_get r ''errors'' = JObj [(''claude'', JStr (message e1)), (''openai'', JStr m2)]"
proof (cases "openai p")
  case None
  with assms(4) have "m2 = ''Not configured''"
    by (simp add: secondary_failure_def)
  with unconfigured_result [OF assms(1,2,3) None, of env] None show ?thesis
    by simp
next
  case (Some create)
  with assms(4) obtain e2 where "create ocrText = Fails e2" and "m2 = message e2"
    by (auto simp add: secondary_failure_def split: completion.splits)
  with both_failed_result [OF assms(1,2,3) Some, of e2 env] Some show ?thesis
    by simp
qed

lemma providers_fail_degraded_witness:
  "\<exists>r. performAIValidation ai_env failing_providers ai_data = Inr r
          \<and> opt_get r ''aiProvider'' = JUndefined
          \<and> opt_get r ''aiModel'' = JStr ''gpt-4o-mini''
          \<and> opt_get r ''isValid'' = JBool False
          \<and> opt_get r ''confidence'' = JNum 0.3
          \<and> opt_get r ''correctedText'' = JStr ''INGREDIENTS: Water, Sugar, Salt. Net weight 12 oz.''
          \<and> opt_get r ''errors'' = JObj [(''claude'', JStr ''Anthropic API error''),
                                            (''openai'', JStr ''OpenAI API error'')]"
  using providers_fail_degraded [of ai_data
      "JStr ''INGREDIENTS: Water, Sugar, Salt. Net weight 12 oz.''" "JStr ''good''"
      failing_providers "Error ''Anthropic API error''" "''OpenAI API error''" ai_env]
  by (simp add: ai_data_def opt_get_def failing_providers_def secondary_failure_def)

text \<open>
  Claim C4 (when the primary provider throws and the secondary also fails or is
  unconfigured, the record has \<open>aiProvider == "none"\<close>, a confidence from 0.3 to 0.4 and an
  \<open>errors\<close> map with both messages). The confidence and the \<open>errors\<close> map are as claimed,
  but no result of \<open>performAIValidation\<close> has a field \<open>aiProvider\<close>, which the repository's
  tests read on every record: with both providers throwing, \<open>aiProvider\<close> is \<open>undefined\<close>
  and only \<open>aiModel\<close> tells which model was tried last.
\<close>

theorem both_providers_fail_no_aiProvider:
  "anthropic failing_providers (JStr ''INGREDIENTS: Water, Sugar, Salt. Net weight 12 oz.'')
     = Fails (Error ''Anthropic API error'')
   \<and> secondary_failure failing_providers (JStr ''INGREDIENTS: Water, Sugar, Salt. Net weight 12 oz.'')
     = Some ''OpenAI API error''
   \<and> map_sum message (\<lambda>r. (opt_get r ''aiProvider'', opt_get r ''aiModel''))
       (performAIValidation ai_env failing_providers ai_data)
     = Inr (JUndefined, JStr ''gpt-4o-mini'')
   \<and> map_sum message (\<lambda>r. opt_get r ''aiProvider'')
       (performAIValidation ai_env failing_providers ai_data) \<noteq> Inr (JStr ''none'')"
  by (simp add: performAIValidation_def ai_data_def opt_get_def validation_result_def
      failing_providers_def secondary_failure_def obj_lit_def)

section \<open>Text extraction and the workflow: what returns and what rethrows\<close>



lemma performAIValidation_raises:
  "data = JUndefined \<or> data = JNull \<Longrightarrow> \<exists>e. performAIValidation env p data = Inl e"
  by (auto simp add: performAIValidation_def)




text \<open>Every engine failure gives the object of the \<open>catch\<close> block: \<open>success\<close> false and
  the message, and neither \<open>text\<close> nor \<open>confidence\<close>.\<close>

lemma engine_failure_shape:
  assumes "image_source ld = Inr src" and "o_recognize env src = EngineFails e"
  shows "performOCR env ld = Inr (ocr_failure_result env ld e)"
    and "ocr_success (ocr_failure_result env ld e) = Some False"
    and "ocr_error (ocr_failure_result env ld e) = Some (message e)"
    and "ocr_text (ocr_failure_result env ld e) = None"
    and "ocr_confidence (ocr_failure_result env ld e) = None"
  using assms by (simp_all add: performOCR_def ocr_failure_result_def empty_ocr_def)

text \<open>
  Claim C8 (on an engine failure \<open>performOCR\<close> returns \<open>success: false\<close>, the error message,
  \<open>text\<close> equal to the empty string and \<open>confidence\<close> equal to 0). It does not raise, and it
  returns \<open>success: false\<close> with the message; but the object of its \<open>catch\<close> block has no
  \<open>text\<close> and no \<open>confidence\<close>: both are \<open>undefined\<close>, where the repository's test "should
  handle OCR processing errors" expects the empty string and 0.
\<close>

theorem engine_failure_result:
  "performOCR failing_engine test_label =
     Inr (empty_ocr \<lparr> ocr_success := Some False, ocr_error := Some ''OCR processing failed'',
                      ocr_filename := Some ''test-label.jpg'', ocr_processingTime := Some 0,
                      ocr_extractedAt := Some ''2026-01-01T00:00:00.000Z'' \<rparr>)
   \<and> map_sum message ocr_text (performOCR failing_engine test_label) = Inr None
   \<and> map_sum message ocr_confidence (performOCR failing_engine test_label) = Inr None"
  by (simp add: performOCR_def image_source_def or_else_def nonempty_def test_label_def
      failing_engine_def ocr_failure_result_def empty_ocr_def)

text \<open>What follows from the missing \<open>text\<close>: on an engine failure the quality gate throws at
  \<open>ocrResult.text.length\<close> and the workflow ends with that TypeError.\<close>

lemma engine_failure_aborts_workflow:
  "labelValidationWorkflow failing_engine env p test_label
     = Inl (TypeError (''Cannot read properties of undefined (reading '' @ squote ''length'' @ '')''))"
  by (simp add: labelValidationWorkflow_def preprocessImageForOCR_def performOCR_def
      image_source_def or_else_def nonempty_def test_label_def failing_engine_def
      ocr_failure_result_def empty_ocr_def assessOCRQuality_def cannot_read_def Let_def)




end
